theory Spec2Isabelle
  imports Complex_Main "HOL-Library.Sublist"
begin

section \<open>Python values and exceptions\<close>

text \<open>
  A Python \<open>str\<close> is modelled as a \<open>string\<close>, one \<open>char\<close> per code point (the code
  points below 256), so that \<open>len\<close> is \<open>length\<close> and the slice \<open>s[:n]\<close> is \<open>take n s\<close>.

  Every exception that the two services can meet is an instance of \<open>Exception\<close>; the
  constructors below keep the classes that the code or the library distinguishes, each with
  the text that \<open>str(e)\<close> returns. \<open>Exception msg\<close> stands for any other instance (a
  network, authentication or rate-limit error of the remote client, an \<open>OSError\<close>, and the
  exceptions that the services raise themselves). Signals that are not instances of
  \<open>Exception\<close> (\<open>KeyboardInterrupt\<close>, \<open>SystemExit\<close>) are not modelled.
\<close>

datatype py_exception =
    JSONDecodeError string
  | IndexError string
  | TypeError string
  | AttributeError string
  | Exception string

fun str_exc :: "py_exception \<Rightarrow> string" where
  "str_exc (JSONDecodeError m) = m"
| "str_exc (IndexError m) = m"
| "str_exc (TypeError m) = m"
| "str_exc (AttributeError m) = m"
| "str_exc (Exception m) = m"

fun is_JSONDecodeError :: "py_exception \<Rightarrow> bool" where
  "is_JSONDecodeError (JSONDecodeError m) = True"
| "is_JSONDecodeError e = False"

text \<open>\<open>str(x)\<close> where \<open>x\<close> is \<open>None\<close> or an exception.\<close>

fun str_opt :: "py_exception option \<Rightarrow> string" where
  "str_opt None = ''None''"
| "str_opt (Some e) = str_exc e"

text \<open>
  The values that \<open>json.loads\<close> returns: \<open>None\<close>, \<open>bool\<close>, \<open>int\<close>, \<open>float\<close>, \<open>str\<close>,
  \<open>list\<close> and \<open>dict\<close>. A dict is the list of its items in insertion order, each key once;
  \<open>map_of\<close> looks a key up.
\<close>

datatype py_value =
    PyNone
  | PyBool bool
  | PyInt int
  | PyFloat real
  | PyStr string
  | PyList "py_value list"
  | PyDict "(string \<times> py_value) list"

section \<open>The analysis service (backend/services/analysis\_service.py)\<close>

subsection \<open>The remote client\<close>

text \<open>
  A chat completion as the code reads it: \<open>response.choices[0].message.content\<close>, where
  \<open>content\<close> is an optional \<open>str\<close>.
\<close>

datatype message = Message (content: "string option")
datatype choice = Choice (message: message)
datatype chat_completion = ChatCompletion (choices: "choice list")

text \<open>
  The request of one attempt. The system prompt, the temperature \<open>0.7\<close> and the response
  format \<open>json_object\<close> are the same constants in every request; the record keeps what
  varies: the model name and the content of the user message.
\<close>

record chat_request =
  req_model :: string
  req_content :: string

text \<open>
  \<open>self.client.chat.completions.create\<close> is the remote service: from its own state \<open>'s\<close> and
  a request it raises or returns a completion, and moves to a new state. \<open>json.loads\<close> is
  library code: a parameter \<open>loads\<close> that raises or returns a value.
\<close>

type_synonym 's client = "'s \<Rightarrow> chat_request \<Rightarrow> (py_exception + chat_completion) \<times> 's"
type_synonym json_loads = "string \<Rightarrow> py_exception + py_value"
type_synonym attempt_log = "(chat_request \<times> (py_exception + chat_completion)) list"

definition first_message_content :: "chat_completion \<Rightarrow> py_exception + string option" where
  "first_message_content r =
     (case choices r of
        [] \<Rightarrow> Inl (IndexError ''list index out of range'')
      | c # _ \<Rightarrow> Inr (content (message c)))"

text \<open>\<open>json.loads(c)\<close> for an optional \<open>str\<close>: \<open>None\<close> is a \<open>TypeError\<close>.\<close>

definition loads_content :: "json_loads \<Rightarrow> string option \<Rightarrow> py_exception + py_value" where
  "loads_content loads c =
     (case c of
        None \<Rightarrow> Inl (TypeError ''the JSON object must be str, bytes or bytearray, not NoneType'')
      | Some s \<Rightarrow> loads s)"

subsection \<open>analyze\_meeting\<close>

text \<open>The local variables of \<open>analyze_meeting\<close> that outlive one iteration, and the client.\<close>

record 's frame =
  analysis_data :: py_value
  last_error :: "py_exception option"
  response :: "chat_completion option"
  groq :: 's

datatype 'a flow = Continue 'a | Break 'a | Raise py_exception 'a

definition default_models :: "string list" where
  "default_models = [''llama-3.1-8b-instant'', ''llama-3.3-70b-versatile'', ''mixtral-8x7b-32768'']"

definition user_message :: "string \<Rightarrow> string" where
  "user_message transcription_text =
     ''Analyze this meeting transcription:'' @ [CHR 0x0A, CHR 0x0A] @ transcription_text"

definition request_for :: "string \<Rightarrow> string \<Rightarrow> chat_request" where
  "request_for transcription_text model_name =
     \<lparr>req_model = model_name, req_content = user_message transcription_text\<rparr>"

text \<open>\<open>models_to_try\<close> after the default is filled in.\<close>

definition candidates :: "string list option \<Rightarrow> string list" where
  "candidates models_to_try =
     (case models_to_try of None \<Rightarrow> default_models | Some ms \<Rightarrow> ms)"

text \<open>The dict built in the \<open>JSONDecodeError\<close> handler.\<close>

definition fallback_data :: "string \<Rightarrow> py_value" where
  "fallback_data raw_content =
     PyDict [(''resume_executif'',
              PyStr (if length raw_content > 500 then take 500 raw_content else raw_content)),
             (''action_items'', PyList [])]"

text \<open>
  The two \<open>except\<close> clauses, for an exception \<open>e\<close> raised in the \<open>try\<close> body. The first one
  tests \<open>response\<close>, which is \<open>None\<close> or a completion object (always true in \<open>if\<close>): the
  completion of this attempt or, when \<open>create\<close> raised, of the latest attempt whose
  request returned. An exception raised inside the handler (\<open>choices[0]\<close> of an empty
  list, \<open>len(None)\<close>) leaves the function.
\<close>

definition on_exception :: "py_exception \<Rightarrow> 's frame \<Rightarrow> 's frame flow" where
  "on_exception e fr =
     (if is_JSONDecodeError e then
        (let fr1 = fr\<lparr>last_error := Some e\<rparr> in
         case response fr1 of
           None \<Rightarrow> Continue fr1
         | Some r \<Rightarrow>
             (case first_message_content r of
                Inl e' \<Rightarrow> Raise e' fr1
              | Inr None \<Rightarrow> Raise (TypeError ''object of type 'NoneType' has no len()'') fr1
              | Inr (Some raw_content) \<Rightarrow>
                  Break (fr1\<lparr>analysis_data := fallback_data raw_content\<rparr>)))
      else Continue (fr\<lparr>last_error := Some e\<rparr>))"

text \<open>One iteration of the loop: the request made with its outcome, and how the body ends.\<close>

definition attempt ::
  "json_loads \<Rightarrow> 's client \<Rightarrow> string \<Rightarrow> string \<Rightarrow> 's frame
     \<Rightarrow> (chat_request \<times> (py_exception + chat_completion)) \<times> 's frame flow" where
  "attempt loads create transcription_text model_name fr =
     (let req = request_for transcription_text model_name;
          (out, g) = create (groq fr) req;
          fr1 = fr\<lparr>groq := g\<rparr>
      in ((req, out),
          case out of
            Inl e \<Rightarrow> on_exception e fr1
          | Inr r \<Rightarrow>
              (let fr2 = fr1\<lparr>response := Some r\<rparr> in
               case first_message_content r of
                 Inl e \<Rightarrow> on_exception e fr2
               | Inr c \<Rightarrow>
                   (case loads_content loads c of
                      Inl e \<Rightarrow> on_exception e fr2
                    | Inr v \<Rightarrow> Break (fr2\<lparr>analysis_data := v\<rparr>)))))"

text \<open>
  The \<open>for\<close> loop over \<open>models_to_try\<close>, with the log of the requests it made. It ends by
  running off the list, by \<open>break\<close>, or by an exception that leaves the function.
\<close>

datatype 'a loop_exit = Exhausted 'a | Broke 'a | Raised py_exception 'a

fun for_models ::
  "json_loads \<Rightarrow> 's client \<Rightarrow> string \<Rightarrow> 's frame \<Rightarrow> string list
     \<Rightarrow> attempt_log \<times> 's frame loop_exit" where
  "for_models loads create transcription_text fr [] = ([], Exhausted fr)"
| "for_models loads create transcription_text fr (model_name # rest) =
     (case attempt loads create transcription_text model_name fr of
        (entry, Continue fr') \<Rightarrow>
          (case for_models loads create transcription_text fr' rest of
             (entries, ex) \<Rightarrow> (entry # entries, ex))
      | (entry, Break fr') \<Rightarrow> ([entry], Broke fr')
      | (entry, Raise e fr') \<Rightarrow> ([entry], Raised e fr'))"

text \<open>The statements after the loop.\<close>

definition after_loop :: "'s frame \<Rightarrow> py_exception + py_value" where
  "after_loop fr =
     (if analysis_data fr = PyNone
      then Inl (Exception (''All models failed. Last error: '' @ str_opt (last_error fr)))
      else Inr (analysis_data fr))"

text \<open>
  \<open>analyze_meeting\<close> returns or raises; the model also gives the log of the requests made
  and the state in which the call leaves the remote service.
\<close>

definition analyze_meeting ::
  "json_loads \<Rightarrow> 's client \<Rightarrow> 's \<Rightarrow> string \<Rightarrow> string list option
     \<Rightarrow> (py_exception + py_value) \<times> attempt_log \<times> 's" where
  "analyze_meeting loads create g transcription_text models_to_try =
     (let models = candidates models_to_try;
          fr0 = \<lparr>analysis_data = PyNone, last_error = None, response = None, groq = g\<rparr>
      in case for_models loads create transcription_text fr0 models of
           (entries, Exhausted fr) \<Rightarrow> (after_loop fr, entries, groq fr)
         | (entries, Broke fr) \<Rightarrow> (after_loop fr, entries, groq fr)
         | (entries, Raised e fr) \<Rightarrow> (Inl e, entries, groq fr))"

section \<open>The presentation of action items (frontend/app.py)\<close>

definition quoted :: "string \<Rightarrow> string" where
  "quoted s = [CHR 0x27] @ s @ [CHR 0x27]"

fun type_name :: "py_value \<Rightarrow> string" where
  "type_name PyNone = ''NoneType''"
| "type_name (PyBool b) = ''bool''"
| "type_name (PyInt i) = ''int''"
| "type_name (PyFloat x) = ''float''"
| "type_name (PyStr s) = ''str''"
| "type_name (PyList xs) = ''list''"
| "type_name (PyDict kvs) = ''dict''"

text \<open>\<open>x.get(key, default)\<close>: only a dict has the method.\<close>

fun dict_get :: "py_value \<Rightarrow> string \<Rightarrow> py_value \<Rightarrow> py_exception + py_value" where
  "dict_get (PyDict kvs) k d = Inr (case map_of kvs k of None \<Rightarrow> d | Some v \<Rightarrow> v)"
| "dict_get v k d =
     Inl (AttributeError (quoted (type_name v) @ '' object has no attribute '' @ quoted ''get''))"

text \<open>The truth value of \<open>if x:\<close> and the items of \<open>for item in x\<close>.\<close>

fun py_truthy :: "py_value \<Rightarrow> bool" where
  "py_truthy PyNone = False"
| "py_truthy (PyBool b) = b"
| "py_truthy (PyInt i) = (i \<noteq> 0)"
| "py_truthy (PyFloat x) = (x \<noteq> 0)"
| "py_truthy (PyStr s) = (s \<noteq> [])"
| "py_truthy (PyList xs) = (xs \<noteq> [])"
| "py_truthy (PyDict kvs) = (kvs \<noteq> [])"

fun py_iter :: "py_value \<Rightarrow> py_exception + py_value list" where
  "py_iter (PyList xs) = Inr xs"
| "py_iter (PyStr s) = Inr (map (\<lambda>c. PyStr [c]) s)"
| "py_iter (PyDict kvs) = Inr (map (\<lambda>kv. PyStr (fst kv)) kvs)"
| "py_iter v = Inl (TypeError (quoted (type_name v) @ '' object is not iterable''))"

text \<open>
  The loop of the action-items tab. Each item is shown by \<open>st.markdown\<close> as its number,
  its \<open>tache\<close> and its \<open>responsable\<close>; the model returns these triples in display order.
\<close>

fun item_rows :: "nat \<Rightarrow> py_value list \<Rightarrow> py_exception + (nat \<times> py_value \<times> py_value) list" where
  "item_rows idx [] = Inr []"
| "item_rows idx (item # items) =
     (case dict_get item ''tache'' (PyStr ''Task not specified'') of
        Inl e \<Rightarrow> Inl e
      | Inr tache \<Rightarrow>
          (case dict_get item ''responsable'' (PyStr ''Not assigned'') of
             Inl e \<Rightarrow> Inl e
           | Inr responsable \<Rightarrow>
               (case item_rows (Suc idx) items of
                  Inl e \<Rightarrow> Inl e
                | Inr rows \<Rightarrow> Inr ((idx, tache, responsable) # rows))))"

datatype action_items_tab =
    Rows "(nat \<times> py_value \<times> py_value) list"
  | Info string

definition show_action_items :: "py_value \<Rightarrow> py_exception + action_items_tab" where
  "show_action_items analysis =
     (case dict_get analysis ''action_items'' (PyList []) of
        Inl e \<Rightarrow> Inl e
      | Inr action_items \<Rightarrow>
          (if py_truthy action_items then
             (case py_iter action_items of
                Inl e \<Rightarrow> Inl e
              | Inr items \<Rightarrow>
                  (case item_rows 1 items of Inl e \<Rightarrow> Inl e | Inr rows \<Rightarrow> Inr (Rows rows)))
           else Inr (Info ''No action items detected in this meeting.'')))"

section \<open>The transcription service (backend/services/transcription\_service.py)\<close>

subsection \<open>The speech model\<close>

text \<open>
  A segment, of which the code reads \<open>text\<close> only, and the \<open>info\<close> object; its attribute
  \<open>duration\<close> may be missing (\<open>getattr(info, "duration", None)\<close>).
\<close>

datatype segment = Segment (segment_text: string)

record transcription_info =
  language :: string
  language_probability :: real
  duration :: "real option"

text \<open>
  \<open>segments\<close> is a generator: it is finished, or its next step yields an item, or its
  next step raises (a decoding failure in the middle of the file).
\<close>

datatype 'a generator = StopIteration | Yield 'a "'a generator" | Raises py_exception

text \<open>
  A loaded model is what its method \<open>transcribe(path, language, beam_size)\<close> does. The
  constructor \<open>WhisperModel(model_size, device, compute_type)\<close> is library code: a
  parameter that raises or returns a model.
\<close>

datatype whisper_model =
  WhisperModel (transcribe:
    "string \<Rightarrow> string option \<Rightarrow> int \<Rightarrow> py_exception + (segment generator \<times> transcription_info)")

type_synonym whisper_new = "string \<Rightarrow> string \<Rightarrow> string \<Rightarrow> py_exception + whisper_model"

record transcription_service =
  model_size :: string
  model :: "whisper_model option"

definition init_service :: "string \<Rightarrow> transcription_service" where
  "init_service sz = \<lparr>model_size = sz, model = None\<rparr>"

subsection \<open>load\_model\<close>

definition load_model ::
  "whisper_new \<Rightarrow> transcription_service
     \<Rightarrow> (py_exception + whisper_model) \<times> transcription_service" where
  "load_model new self =
     (case model self of
        None \<Rightarrow>
          (case new (model_size self) ''cpu'' ''int8'' of
             Inl e \<Rightarrow> (Inl (Exception (''Error loading Whisper model: '' @ str_exc e)), self)
           | Inr m \<Rightarrow> (Inr m, self\<lparr>model := Some m\<rparr>))
      | Some m \<Rightarrow> (Inr m, self))"

subsection \<open>transcribe\_audio\_file\<close>

text \<open>
  \<open>str.strip()\<close> removes the characters for which \<open>str.isspace\<close> holds from both ends;
  below code point 256 these are the following.
\<close>

definition isspace :: "char \<Rightarrow> bool" where
  "isspace c = (of_char c \<in> {9, 10, 11, 12, 13, 28, 29, 30, 31, 32, 133, 160 :: nat})"

definition rstrip :: "string \<Rightarrow> string" where
  "rstrip s = rev (dropWhile isspace (rev s))"

definition strip :: "string \<Rightarrow> string" where
  "strip s = dropWhile isspace (rstrip s)"

text \<open>
  The \<open>for\<close> loop over the segments, from the text accumulated so far: the text or the
  exception of the generator, and the generator as the loop leaves it.
\<close>

fun join_segments :: "string \<Rightarrow> segment generator \<Rightarrow> (py_exception + string) \<times> segment generator" where
  "join_segments transcription_text StopIteration = (Inr transcription_text, StopIteration)"
| "join_segments transcription_text (Yield seg segments) =
     join_segments (transcription_text @ segment_text seg @ '' '') segments"
| "join_segments transcription_text (Raises e) = (Inl e, StopIteration)"

definition metadata_of :: "transcription_info \<Rightarrow> py_value" where
  "metadata_of info =
     PyDict [(''language'', PyStr (language info)),
             (''language_probability'', PyFloat (language_probability info)),
             (''duration'', (case duration info of None \<Rightarrow> PyNone | Some d \<Rightarrow> PyFloat d))]"

definition transcription_error :: "py_exception \<Rightarrow> py_exception" where
  "transcription_error e = Exception (''Error during transcription: '' @ str_exc e)"

text \<open>
  The call returns \<open>(transcription_text, metadata)\<close> or raises; the model also gives the
  service after the call and the generator as the call leaves it (\<open>None\<close> when no
  generator was obtained).
\<close>

definition transcribe_audio_file ::
  "whisper_new \<Rightarrow> transcription_service \<Rightarrow> string \<Rightarrow> string option \<Rightarrow> int
     \<Rightarrow> (py_exception + string \<times> py_value) \<times> transcription_service \<times> segment generator option" where
  "transcribe_audio_file new self audio_file_path lang beam_size =
     (case (case model self of None \<Rightarrow> load_model new self | Some m \<Rightarrow> (Inr m, self)) of
        (Inl e, self1) \<Rightarrow> (Inl e, self1, None)
      | (Inr m, self1) \<Rightarrow>
          (case transcribe m audio_file_path lang beam_size of
             Inl e \<Rightarrow> (Inl (transcription_error e), self1, None)
           | Inr (segments, info) \<Rightarrow>
               (case join_segments [] segments of
                  (Inl e, segments') \<Rightarrow> (Inl (transcription_error e), self1, Some segments')
                | (Inr transcription_text, segments') \<Rightarrow>
                    (Inr (strip transcription_text, metadata_of info), self1, Some segments'))))"

subsection \<open>transcribe\_uploaded\_file\<close>

text \<open>
  The upload, the disk (the content of each file that exists) and the standard output.
  What the operating system and the library decide is a parameter: the extension that
  \<open>os.path.splitext\<close> finds, the path at which \<open>NamedTemporaryFile\<close> creates its file (or
  its exception), and whether \<open>write\<close>, \<open>close\<close> and \<open>os.unlink\<close> raise on a path.
\<close>

record uploaded_file =
  name :: string
  getbuffer :: string

record world =
  disk :: "string \<rightharpoonup> string"
  stdout :: "string list"

record os_env =
  splitext :: "string \<Rightarrow> string \<times> string"
  named_temporary_file :: "string \<Rightarrow> py_exception + string"
  write_error :: "string \<Rightarrow> py_exception option"
  close_error :: "string \<Rightarrow> py_exception option"
  unlink_error :: "string \<Rightarrow> py_exception option"

definition exists_path :: "world \<Rightarrow> string \<Rightarrow> bool" where
  "exists_path w p = (disk w p \<noteq> None)"

definition unlink :: "os_env \<Rightarrow> world \<Rightarrow> string \<Rightarrow> py_exception + world" where
  "unlink env w p =
     (case unlink_error env p of
        Some e \<Rightarrow> Inl e
      | None \<Rightarrow>
          (if exists_path w p then Inr (w\<lparr>disk := (disk w)(p := None)\<rparr>)
           else Inl (Exception (''[Errno 2] No such file or directory: '' @ quoted p))))"

text \<open>\<open>if temp_file_path and os.path.exists(temp_file_path)\<close>.\<close>

definition to_delete :: "world \<Rightarrow> string option \<Rightarrow> string option" where
  "to_delete w temp_file_path =
     (case temp_file_path of
        None \<Rightarrow> None
      | Some p \<Rightarrow> (if p \<noteq> [] \<and> exists_path w p then Some p else None))"

text \<open>The clean-up of the \<open>except\<close> clause: a failure of \<open>os.unlink\<close> is passed over.\<close>

definition cleanup_on_error :: "os_env \<Rightarrow> string option \<Rightarrow> world \<Rightarrow> world" where
  "cleanup_on_error env temp_file_path w =
     (case to_delete w temp_file_path of
        None \<Rightarrow> w
      | Some p \<Rightarrow> (case unlink env w p of Inl e \<Rightarrow> w | Inr w' \<Rightarrow> w'))"

text \<open>The clean-up of the \<open>finally\<close> clause: a failure of \<open>os.unlink\<close> is printed.\<close>

definition cleanup_finally :: "os_env \<Rightarrow> string option \<Rightarrow> world \<Rightarrow> world" where
  "cleanup_finally env temp_file_path w =
     (case to_delete w temp_file_path of
        None \<Rightarrow> w
      | Some p \<Rightarrow>
          (case unlink env w p of
             Inl e \<Rightarrow>
               w\<lparr>stdout := stdout w @ [''Warning: Unable to delete temporary file: '' @ str_exc e]\<rparr>
           | Inr w' \<Rightarrow> w'))"

text \<open>\<open>os.path.splitext(uploaded_file.name)[1] or ".mp3"\<close>.\<close>

definition file_extension :: "os_env \<Rightarrow> uploaded_file \<Rightarrow> string" where
  "file_extension env uploaded =
     (let ext = snd (splitext env (name uploaded)) in if ext = [] then ''.mp3'' else ext)"

text \<open>
  The \<open>try\<close> body: its result, the value of \<open>temp_file_path\<close> when it ends (assigned after
  the write), the service and the world.
\<close>

definition try_body ::
  "os_env \<Rightarrow> whisper_new \<Rightarrow> transcription_service \<Rightarrow> uploaded_file \<Rightarrow> string option \<Rightarrow> int
     \<Rightarrow> world \<Rightarrow> (py_exception + string \<times> py_value) \<times> string option \<times> transcription_service \<times> world" where
  "try_body env new self uploaded lang beam_size w =
     (case named_temporary_file env (file_extension env uploaded) of
        Inl e \<Rightarrow> (Inl e, None, self, w)
      | Inr p \<Rightarrow>
          (let w1 = w\<lparr>disk := (disk w)(p \<mapsto> [])\<rparr> in
           case write_error env p of
             Some e \<Rightarrow> (Inl e, None, self, w1)
           | None \<Rightarrow>
               (let w2 = w1\<lparr>disk := (disk w1)(p \<mapsto> getbuffer uploaded)\<rparr> in
                case close_error env p of
                  Some e \<Rightarrow> (Inl e, Some p, self, w2)
                | None \<Rightarrow>
                    (case transcribe_audio_file new self p lang beam_size of
                       (res, self', segments') \<Rightarrow> (res, Some p, self', w2)))))"

definition transcribe_uploaded_file ::
  "os_env \<Rightarrow> whisper_new \<Rightarrow> transcription_service \<Rightarrow> uploaded_file \<Rightarrow> string option \<Rightarrow> int
     \<Rightarrow> world \<Rightarrow> (py_exception + string \<times> py_value) \<times> transcription_service \<times> world" where
  "transcribe_uploaded_file env new self uploaded lang beam_size w =
     (case try_body env new self uploaded lang beam_size w of
        (res, temp_file_path, self', w1) \<Rightarrow>
          (let w2 = (case res of
                       Inl e \<Rightarrow> cleanup_on_error env temp_file_path w1
                     | Inr r \<Rightarrow> w1)
           in (res, self', cleanup_finally env temp_file_path w2)))"

section \<open>Notions used to state the properties\<close>

subsection \<open>Analysis\<close>


text \<open>
  The exceptions of the requests when every one of them, made in this order from the
  state \<open>g\<close>, fails; \<open>None\<close> when one of them returns a completion.
\<close>

fun request_errors :: "'s client \<Rightarrow> 's \<Rightarrow> chat_request list \<Rightarrow> py_exception list option" where
  "request_errors create g [] = Some []"
| "request_errors create g (req # reqs) =
     (case create g req of
        (Inl e, g') \<Rightarrow> map_option ((#) e) (request_errors create g' reqs)
      | (Inr r, g') \<Rightarrow> None)"


subsection \<open>Transcription\<close>

text \<open>A generator that yields the given segments and then finishes, or then raises.\<close>

fun yields :: "segment list \<Rightarrow> segment generator \<Rightarrow> segment generator" where
  "yields [] end_state = end_state"
| "yields (seg # segs) end_state = Yield seg (yields segs end_state)"

text \<open>
  The text that the specification asks for: the segment texts in order, separated by a
  single space, then trimmed.
\<close>

fun spec_separated :: "string list \<Rightarrow> string" where
  "spec_separated [] = []"
| "spec_separated [t] = t"
| "spec_separated (t # u # ts) = t @ '' '' @ spec_separated (u # ts)"

definition spec_transcript :: "segment list \<Rightarrow> string" where
  "spec_transcript segs = strip (spec_separated (map segment_text segs))"

text \<open>The service can use the model \<open>m\<close>: it is loaded, or the constructor returns it.\<close>

definition provides :: "whisper_new \<Rightarrow> transcription_service \<Rightarrow> whisper_model \<Rightarrow> bool" where
  "provides new self m =
     (case model self of
        Some m' \<Rightarrow> m' = m
      | None \<Rightarrow> new (model_size self) ''cpu'' ''int8'' = Inr m)"

section \<open>Sample inputs\<close>

text \<open>A stub of the remote service that replays a list of outcomes, one per request.\<close>

fun replay :: "(py_exception + chat_completion) list client" where
  "replay [] req = (Inl (Exception ''Connection error.''), [])"
| "replay (out # outs) req = (out, outs)"

definition completion_of :: "string \<Rightarrow> chat_completion" where
  "completion_of s = ChatCompletion [Choice (Message (Some s))]"

definition long_prose :: string where
  "long_prose = replicate 501 (CHR ''x'')"

definition missing_owner_json :: string where
  "missing_owner_json =
     ''{'' @ [CHR 0x22] @ ''resume_executif'' @ [CHR 0x22] @ '': '' @ [CHR 0x22] @ ''Deadline.'' @ [CHR 0x22] @ '', ''
       @ [CHR 0x22] @ ''action_items'' @ [CHR 0x22] @ '': [{'' @ [CHR 0x22] @ ''tache'' @ [CHR 0x22] @ '': ''
       @ [CHR 0x22] @ ''Finish report'' @ [CHR 0x22] @ ''}]}''"

definition missing_owner_data :: py_value where
  "missing_owner_data =
     PyDict [(''resume_executif'', PyStr ''Deadline.''),
             (''action_items'', PyList [PyDict [(''tache'', PyStr ''Finish report'')]])]"

text \<open>
  \<open>json.loads\<close> on the texts of the examples: three JSON texts, and prose, which it rejects
  at the first character.
\<close>

definition loads_sample :: json_loads where
  "loads_sample s =
     (if s = ''null'' then Inr PyNone
      else if s = ''[]'' then Inr (PyList [])
      else if s = missing_owner_json then Inr missing_owner_data
      else Inl (JSONDecodeError ''Expecting value: line 1 column 1 (char 0)''))"

text \<open>
  A model that yields the given generator, a model whose \<open>transcribe\<close> raises, and a
  constructor that fails.
\<close>

definition sample_info :: transcription_info where
  "sample_info = \<lparr>language = ''en'', language_probability = 1, duration = Some 2\<rparr>"

definition model_yielding :: "segment generator \<Rightarrow> whisper_model" where
  "model_yielding segments = WhisperModel (\<lambda>path lang beam_size. Inr (segments, sample_info))"

definition model_failing :: "py_exception \<Rightarrow> whisper_model" where
  "model_failing e = WhisperModel (\<lambda>path lang beam_size. Inl e)"

definition no_weights :: whisper_new where
  "no_weights sz device compute_type = Inl (Exception ''model not found'')"

text \<open>
  An operating system whose temporary file is \<open>/tmp/tmpk3x\<close> followed by the suffix, where
  \<open>write\<close> and \<open>close\<close> succeed and \<open>os.unlink\<close> raises the given exception, if any.
\<close>

definition sample_env :: "py_exception option \<Rightarrow> os_env" where
  "sample_env unlink_exc =
     \<lparr>splitext = (\<lambda>n. (takeWhile (\<lambda>c. c \<noteq> CHR ''.'') n, dropWhile (\<lambda>c. c \<noteq> CHR ''.'') n)),
      named_temporary_file = (\<lambda>suffix. Inr (''/tmp/tmpk3x'' @ suffix)),
      write_error = (\<lambda>p. None),
      close_error = (\<lambda>p. None),
      unlink_error = (\<lambda>p. unlink_exc)\<rparr>"

definition sample_upload :: uploaded_file where
  "sample_upload = \<lparr>name = ''meeting.wav'', getbuffer = ''RIFF''\<rparr>"

definition empty_world :: world where
  "empty_world = \<lparr>disk = Map.empty, stdout = []\<rparr>"

section \<open>Properties of the analysis service\<close>

subsection \<open>One attempt\<close>

lemma attempt_entry:
  "fst (attempt loads create t m fr) = (request_for t m, fst (create (groq fr) (request_for t m)))"
  by (simp add: attempt_def Let_def split: prod.splits)

lemma attempt_model: "attempt loads create t m fr = (entry, fl) \<Longrightarrow> req_model (fst entry) = m"
  using attempt_entry [of loads create t m fr] by (simp add: request_for_def)

lemma attempt_request_failed:
  assumes "create (groq fr) (request_for t m) = (Inl e, g)" and "response fr = None"
  shows "attempt loads create t m fr =
           ((request_for t m, Inl e), Continue (fr\<lparr>last_error := Some e, groq := g\<rparr>))"
  using assms by (simp add: attempt_def on_exception_def Let_def)

lemma attempt_parsed:
  assumes "attempt loads create t m fr = ((req, Inr r), fl)"
    and "first_message_content r = Inr (Some raw)" and "loads raw = Inr v"
  shows "\<exists>fr'. fl = Break fr' \<and> analysis_data fr' = v"
  using assms
  by (auto simp add: attempt_def loads_content_def Let_def split: prod.splits sum.splits)

lemma attempt_decode_error:
  assumes "attempt loads create t m fr = ((req, Inr r), fl)"
    and "first_message_content r = Inr (Some raw)" and "loads raw = Inl e"
    and "is_JSONDecodeError e"
  shows "\<exists>fr'. fl = Break fr' \<and> analysis_data fr' = fallback_data raw"
  using assms
  by (auto simp add: attempt_def loads_content_def on_exception_def Let_def
      split: prod.splits sum.splits)

subsection \<open>The loop\<close>

lemma for_models_prefix:
  "prefix (map (req_model \<circ> fst) (fst (for_models loads create t fr ms))) ms"
proof (induction ms arbitrary: fr)
  case Nil
  show ?case by simp
next
  case (Cons m ms)
  obtain entry fl where a: "attempt loads create t m fr = (entry, fl)"
    by (cases "attempt loads create t m fr")
  note e = attempt_model [OF a]
  show ?case
  proof (cases fl)
    case (Continue fr')
    with a e Cons.IH [of fr'] show ?thesis
      by (auto split: prod.splits)
  next
    case (Break fr')
    with a e show ?thesis by simp
  next
    case (Raise x fr')
    with a e show ?thesis by simp
  qed
qed

text \<open>
  An attempt after which the body always breaks, leaving \<open>d\<close> in \<open>analysis_data\<close>, is the
  last attempt of the loop, and the loop ends by that \<open>break\<close>.
\<close>

lemma for_models_breaks_at:
  assumes brk: "\<And>m fr fl. attempt loads create t m fr = (entry, fl)
                  \<Longrightarrow> \<exists>fr'. fl = Break fr' \<and> analysis_data fr' = d"
    and "for_models loads create t fr ms = (entries, ex)"
    and "entry \<in> set entries"
  shows "(\<exists>fr'. ex = Broke fr' \<and> analysis_data fr' = d) \<and> last entries = entry"
  using assms(2,3)
proof (induction ms arbitrary: fr entries)
  case Nil
  then show ?case by simp
next
  case (Cons m ms)
  obtain entry' fl where a: "attempt loads create t m fr = (entry', fl)"
    by (cases "attempt loads create t m fr")
  show ?case
  proof (cases fl)
    case (Continue fr1)
    obtain es ex1 where r: "for_models loads create t fr1 ms = (es, ex1)"
      by (cases "for_models loads create t fr1 ms")
    with a Continue Cons.prems(1) have eq: "entries = entry' # es" "ex1 = ex"
      by simp_all
    have "entry' \<noteq> entry"
      using brk [of m fr fl] a Continue by auto
    with eq Cons.prems(2) have mem: "entry \<in> set es" by simp
    then have "es \<noteq> []" by auto
    with Cons.IH [OF _ mem, of fr1] r eq show ?thesis by simp
  next
    case (Break fr1)
    with a Cons.prems have eq: "entries = [entry']" "ex = Broke fr1" "entry' = entry"
      by auto
    with brk [of m fr fl] a Break show ?thesis by simp
  next
    case (Raise x fr1)
    with a Cons.prems have eq: "entries = [entry']" "entry' = entry"
      by auto
    with brk [of m fr fl] a Raise show ?thesis by simp
  qed
qed

lemma for_models_all_fail:
  assumes "request_errors create (groq fr) (map (request_for t) ms) = Some es"
    and "response fr = None"
  shows "\<exists>fr'. for_models loads create t fr ms = (zip (map (request_for t) ms) (map Inl es), Exhausted fr')
           \<and> analysis_data fr' = analysis_data fr
           \<and> last_error fr' = (if es = [] then last_error fr else Some (last es))
           \<and> length es = length ms"
  using assms
proof (induction ms arbitrary: fr es)
  case Nil
  then show ?case by simp
next
  case (Cons m ms)
  from Cons.prems(1) obtain e g es' where c: "create (groq fr) (request_for t m) = (Inl e, g)"
    and r: "request_errors create g (map (request_for t) ms) = Some es'" and es: "es = e # es'"
    by (auto split: prod.splits sum.splits)
  let ?fr1 = "fr\<lparr>last_error := Some e, groq := g\<rparr>"
  have a: "attempt loads create t m fr = ((request_for t m, Inl e), Continue ?fr1)"
    using c Cons.prems(2) by (rule attempt_request_failed)
  from Cons.IH [of ?fr1 es'] r Cons.prems(2)
  obtain fr' where run: "for_models loads create t ?fr1 ms
        = (zip (map (request_for t) ms) (map Inl es'), Exhausted fr')"
    and d: "analysis_data fr' = analysis_data fr"
    and l: "last_error fr' = (if es' = [] then Some e else Some (last es'))"
    and n: "length es' = length ms"
    by auto
  from a run d l n es show ?case by simp
qed

subsection \<open>The call\<close>

lemma analyze_meeting_log_prefix:
  "prefix (map (req_model \<circ> fst) (fst (snd (analyze_meeting loads create g t models_to_try))))
     (candidates models_to_try)"
proof -
  let ?fr0 = "\<lparr>analysis_data = PyNone, last_error = None, response = None, groq = g\<rparr>"
  let ?run = "for_models loads create t ?fr0 (candidates models_to_try)"
  have "fst (snd (analyze_meeting loads create g t models_to_try)) = fst ?run"
    by (cases ?run; cases "snd ?run") (simp_all add: analyze_meeting_def)
  then show ?thesis
    using for_models_prefix [of loads create t ?fr0 "candidates models_to_try"] by simp
qed

lemma analyze_meeting_breaks_at:
  assumes brk: "\<And>m fr fl. attempt loads create t m fr = (entry, fl)
                  \<Longrightarrow> \<exists>fr'. fl = Break fr' \<and> analysis_data fr' = d"
    and call: "analyze_meeting loads create g t models_to_try = (res, entries, g')"
    and mem: "entry \<in> set entries"
  shows "(d \<noteq> PyNone \<longrightarrow> res = Inr d) \<and> last entries = entry"
proof -
  let ?fr0 = "\<lparr>analysis_data = PyNone, last_error = None, response = None, groq = g\<rparr>"
  obtain es ex where run: "for_models loads create t ?fr0 (candidates models_to_try) = (es, ex)"
    by (cases "for_models loads create t ?fr0 (candidates models_to_try)")
  with call have es: "es = entries"
    by (cases ex) (simp_all add: analyze_meeting_def)
  with mem have mem': "entry \<in> set es" by simp
  have "(\<exists>fr'. ex = Broke fr' \<and> analysis_data fr' = d) \<and> last es = entry"
    using brk run mem' by (rule for_models_breaks_at)
  then obtain fr' where ex: "ex = Broke fr'" and data: "analysis_data fr' = d"
    and lst: "last es = entry"
    by auto
  from run ex call have "res = after_loop fr'"
    by (simp add: analyze_meeting_def)
  with data lst es show ?thesis
    by (simp add: after_loop_def)
qed

subsection \<open>Evaluation of the sample inputs\<close>

lemmas analysis_defs =
  analyze_meeting_def candidates_def default_models_def attempt_def on_exception_def
  first_message_content_def loads_content_def after_loop_def completion_of_def Let_def

lemma loads_sample_long_prose:
  "loads_sample long_prose = Inl (JSONDecodeError ''Expecting value: line 1 column 1 (char 0)'')"
proof -
  have "hd long_prose = CHR ''x''" by (simp add: long_prose_def)
  then have "long_prose \<noteq> s" if "hd s \<noteq> CHR ''x''" for s
    using that by auto
  then have "long_prose \<noteq> ''null''" "long_prose \<noteq> ''[]''" "long_prose \<noteq> missing_owner_json"
    by (simp_all add: missing_owner_json_def)
  then show ?thesis by (simp add: loads_sample_def)
qed

lemma loads_sample_null: "loads_sample ''null'' = Inr PyNone"
  by (simp add: loads_sample_def)

lemma loads_sample_empty_list: "loads_sample ''[]'' = Inr (PyList [])"
  by (simp add: loads_sample_def)

lemma loads_sample_missing_owner: "loads_sample missing_owner_json = Inr missing_owner_data"
  by (simp add: loads_sample_def missing_owner_json_def)

subsection \<open>The degraded result\<close>

text \<open>
  Claim C1. When the request of some candidate returns a completion whose content is
  present and \<open>json.loads\<close> rejects that content with a \<open>JSONDecodeError\<close>, this attempt is
  the last one of the call (no further candidate is tried, and the models requested are
  an initial part of the candidate list), and the call returns the dict whose
  \<open>resume_executif\<close> is the first 500 characters of the content when it is longer than 500
  (the whole content otherwise) and whose \<open>action_items\<close> is the empty list.
\<close>

theorem analyze_degraded_fallback:
  assumes "analyze_meeting loads create g transcription_text models_to_try = (res, entries, g')"
    and "(req, Inr r) \<in> set entries"
    and "first_message_content r = Inr (Some raw_content)"
    and "loads raw_content = Inl e" and "is_JSONDecodeError e"
  shows "res = Inr (PyDict [(''resume_executif'',
                             PyStr (if length raw_content > 500 then take 500 raw_content
                                    else raw_content)),
                            (''action_items'', PyList [])])
         \<and> last entries = (req, Inr r)
         \<and> prefix (map (req_model \<circ> fst) entries) (candidates models_to_try)"
proof -
  have brk: "\<exists>fr'. fl = Break fr' \<and> analysis_data fr' = fallback_data raw_content"
    if "attempt loads create transcription_text m fr = ((req, Inr r), fl)" for m fr fl
    using that assms(3,4,5) by (rule attempt_decode_error)
  have "(fallback_data raw_content \<noteq> PyNone \<longrightarrow> res = Inr (fallback_data raw_content))
          \<and> last entries = (req, Inr r)"
    using brk assms(1,2) by (rule analyze_meeting_breaks_at)
  moreover have "prefix (map (req_model \<circ> fst) entries) (candidates models_to_try)"
    using analyze_meeting_log_prefix [of loads create g transcription_text models_to_try] assms(1)
    by simp
  ultimately show ?thesis by (simp add: fallback_data_def)
qed

theorem analyze_degraded_fallback_witness:
  "analyze_meeting loads_sample replay [Inl (Exception ''Rate limit reached''), Inr (completion_of long_prose)]
     ''We need Alice to finish the report by Friday.'' None
   = (Inr (PyDict [(''resume_executif'', PyStr (replicate 500 (CHR ''x''))), (''action_items'', PyList [])]),
      [(request_for ''We need Alice to finish the report by Friday.'' ''llama-3.1-8b-instant'',
          Inl (Exception ''Rate limit reached'')),
       (request_for ''We need Alice to finish the report by Friday.'' ''llama-3.3-70b-versatile'',
          Inr (completion_of long_prose))],
      [])"
proof -
  let ?t = "''We need Alice to finish the report by Friday.''"
  let ?res = "fst (analyze_meeting loads_sample replay
     [Inl (Exception ''Rate limit reached''), Inr (completion_of long_prose)] ?t None)"
  let ?entries = "[(request_for ?t ''llama-3.1-8b-instant'', Inl (Exception ''Rate limit reached'')),
       (request_for ?t ''llama-3.3-70b-versatile'', Inr (completion_of long_prose))]"
  have call: "analyze_meeting loads_sample replay
     [Inl (Exception ''Rate limit reached''), Inr (completion_of long_prose)] ?t None
     = (?res, ?entries, [])"
    by (simp add: analysis_defs loads_sample_long_prose)
  have mem: "(request_for ?t ''llama-3.3-70b-versatile'', Inr (completion_of long_prose)) \<in> set ?entries"
    by simp
  have content: "first_message_content (completion_of long_prose) = Inr (Some long_prose)"
    by (simp add: first_message_content_def completion_of_def)
  have "is_JSONDecodeError (JSONDecodeError ''Expecting value: line 1 column 1 (char 0)'')"
    by simp
  with analyze_degraded_fallback [OF call mem content loads_sample_long_prose]
  have "?res = Inr (PyDict [(''resume_executif'',
                             PyStr (if length long_prose > 500 then take 500 long_prose
                                    else long_prose)),
                            (''action_items'', PyList [])])"
    by blast
  moreover have "length long_prose > 500" and "take 500 long_prose = replicate 500 (CHR ''x'')"
    by (simp_all add: long_prose_def)
  ultimately have "?res = Inr (PyDict [(''resume_executif'', PyStr (replicate 500 (CHR ''x''))), (''action_items'', PyList [])])"
    by simp
  with call show ?thesis by simp
qed

subsection \<open>The empty candidate list\<close>

text \<open>
  Claim C10. With an explicitly empty candidate list the call makes no request (the log is
  empty and the remote service keeps its state) and raises the exhaustion error, whose
  message reports \<open>None\<close> as the last error.
\<close>

theorem analyze_empty_candidates:
  "analyze_meeting loads create g transcription_text (Some [])
     = (Inl (Exception ''All models failed. Last error: None''), [], g)"
  by (simp add: analyze_meeting_def candidates_def after_loop_def)

subsection \<open>Exhaustion\<close>

lemma analyze_all_requests_fail:
  assumes "request_errors create g (map (request_for t) (candidates models_to_try)) = Some es"
  shows "fst (analyze_meeting loads create g t models_to_try)
           = Inl (Exception (''All models failed. Last error: ''
                             @ (if es = [] then ''None'' else str_exc (last es))))
         \<and> fst (snd (analyze_meeting loads create g t models_to_try))
           = zip (map (request_for t) (candidates models_to_try)) (map Inl es)
         \<and> length es = length (candidates models_to_try)"
proof -
  let ?fr0 = "\<lparr>analysis_data = PyNone, last_error = None, response = None, groq = g\<rparr>"
  have "request_errors create (groq ?fr0) (map (request_for t) (candidates models_to_try)) = Some es"
    and "response ?fr0 = None"
    using assms by simp_all
  then have "\<exists>fr'. for_models loads create t ?fr0 (candidates models_to_try)
               = (zip (map (request_for t) (candidates models_to_try)) (map Inl es), Exhausted fr')
           \<and> analysis_data fr' = analysis_data ?fr0
           \<and> last_error fr' = (if es = [] then last_error ?fr0 else Some (last es))
           \<and> length es = length (candidates models_to_try)"
    by (rule for_models_all_fail)
  then show ?thesis
    by (auto simp add: analyze_meeting_def after_loop_def)
qed

text \<open>
  Claim C2. If every candidate fails at the request level the call raises the exhaustion
  error with the last failure (the lemma above); if a candidate returns any content the
  call must not raise. The second half fails for the content \<open>null\<close>: the first candidate
  fails at the request level, the second returns the JSON text \<open>null\<close>, \<open>json.loads\<close>
  returns \<open>None\<close>, the loop breaks, and the call raises the exhaustion error although a
  candidate returned content and the third candidate was never asked.
\<close>

theorem analyze_null_content_raises:
  "analyze_meeting loads_sample replay
     [Inl (Exception ''Rate limit reached''), Inr (completion_of ''null'')]
     ''We need Alice to finish the report by Friday.''
     (Some [''llama-3.1-8b-instant'', ''llama-3.3-70b-versatile'', ''mixtral-8x7b-32768''])
   = (Inl (Exception ''All models failed. Last error: Rate limit reached''),
      [(request_for ''We need Alice to finish the report by Friday.'' ''llama-3.1-8b-instant'',
          Inl (Exception ''Rate limit reached'')),
       (request_for ''We need Alice to finish the report by Friday.'' ''llama-3.3-70b-versatile'',
          Inr (completion_of ''null''))],
      [])"
  by (simp add: analysis_defs loads_sample_null)

subsection \<open>Order of the candidates\<close>








subsection \<open>No validation of the parsed value\<close>

text \<open>
  When the request of some candidate returns a completion whose content \<open>json.loads\<close>
  parses to a value other than \<open>None\<close>, this attempt is the last one and the call returns
  that value unchanged, whatever its shape: a list, a string, a dict without
  \<open>resume_executif\<close> or \<open>action_items\<close>.
\<close>

lemma analyze_returns_parsed_value:
  assumes "analyze_meeting loads create g transcription_text models_to_try = (res, entries, g')"
    and "(req, Inr r) \<in> set entries"
    and "first_message_content r = Inr (Some raw_content)"
    and "loads raw_content = Inr v" and "v \<noteq> PyNone"
  shows "res = Inr v \<and> last entries = (req, Inr r)"
proof -
  have brk: "\<exists>fr'. fl = Break fr' \<and> analysis_data fr' = v"
    if "attempt loads create transcription_text m fr = ((req, Inr r), fl)" for m fr fl
    using that assms(3,4) by (rule attempt_parsed)
  have "(v \<noteq> PyNone \<longrightarrow> res = Inr v) \<and> last entries = (req, Inr r)"
    using brk assms(1,2) by (rule analyze_meeting_breaks_at)
  with assms(5) show ?thesis by simp
qed

lemma analyze_returns_empty_list:
  "analyze_meeting loads_sample replay [Inr (completion_of ''[]'')] ''hello'' (Some [''mixtral-8x7b-32768''])
     = (Inr (PyList []), [(request_for ''hello'' ''mixtral-8x7b-32768'', Inr (completion_of ''[]''))], [])"
proof -
  let ?call = "analyze_meeting loads_sample replay [Inr (completion_of ''[]'')] ''hello''
                 (Some [''mixtral-8x7b-32768''])"
  let ?entry = "(request_for ''hello'' ''mixtral-8x7b-32768'', Inr (completion_of ''[]''))"
  have call: "?call = (fst ?call, [?entry], [])"
    by (simp add: analysis_defs loads_sample_empty_list)
  have "?entry \<in> set [?entry]"
    and "first_message_content (completion_of ''[]'') = Inr (Some ''[]'')"
    and "PyList [] \<noteq> PyNone"
    by (simp_all add: first_message_content_def completion_of_def)
  with analyze_returns_parsed_value [OF call _ _ loads_sample_empty_list]
  have "fst ?call = Inr (PyList [])" by blast
  with call show ?thesis by simp
qed

text \<open>
  Claim C9. For any valid JSON text in the content the call should return the parsed
  value unchanged, as a success. The code does so for every parsed value but one (the
  lemma above): for the JSON text \<open>null\<close> the parsed value is \<open>None\<close>, the loop breaks as on
  a success, and the test after the loop takes the \<open>None\<close> for a missing result and raises
  the exhaustion error instead of returning the value.
\<close>

theorem analyze_null_is_not_returned:
  "loads_sample ''null'' = Inr PyNone
   \<and> analyze_meeting loads_sample replay [Inr (completion_of ''null'')] ''hello''
       (Some [''llama-3.1-8b-instant''])
     = (Inl (Exception ''All models failed. Last error: None''),
        [(request_for ''hello'' ''llama-3.1-8b-instant'', Inr (completion_of ''null''))], [])"
  by (simp add: analysis_defs loads_sample_null)

subsection \<open>An action item without a responsible person\<close>

lemma item_rows_of_dicts:
  assumes "\<forall>item \<in> set items. \<exists>kv. item = PyDict kv"
  shows "\<exists>rows. item_rows idx items = Inr rows \<and> length rows = length items
           \<and> (\<forall>i < length items. \<forall>kv. items ! i = PyDict kv \<longrightarrow>
                 rows ! i = (idx + i,
                             (case map_of kv ''tache'' of None \<Rightarrow> PyStr ''Task not specified'' | Some v \<Rightarrow> v),
                             (case map_of kv ''responsable'' of None \<Rightarrow> PyStr ''Not assigned'' | Some v \<Rightarrow> v)))"
  using assms
proof (induction items arbitrary: idx)
  case Nil
  then show ?case by simp
next
  case (Cons item items)
  then obtain kv0 where item: "item = PyDict kv0" by auto
  from Cons.prems have "\<forall>item \<in> set items. \<exists>kv. item = PyDict kv" by simp
  from Cons.IH [OF this, of "Suc idx"] obtain rows where
    rows: "item_rows (Suc idx) items = Inr rows" "length rows = length items"
    and nth: "\<And>i kv. i < length items \<Longrightarrow> items ! i = PyDict kv \<Longrightarrow>
                 rows ! i = (Suc idx + i,
                             (case map_of kv ''tache'' of None \<Rightarrow> PyStr ''Task not specified'' | Some v \<Rightarrow> v),
                             (case map_of kv ''responsable'' of None \<Rightarrow> PyStr ''Not assigned'' | Some v \<Rightarrow> v))"
    by blast
  let ?row = "(idx, (case map_of kv0 ''tache'' of None \<Rightarrow> PyStr ''Task not specified'' | Some v \<Rightarrow> v),
                    (case map_of kv0 ''responsable'' of None \<Rightarrow> PyStr ''Not assigned'' | Some v \<Rightarrow> v))"
  have eq: "item_rows idx (item # items) = Inr (?row # rows)"
    using item rows(1) by simp
  have "(?row # rows) ! i = (idx + i,
                             (case map_of kv ''tache'' of None \<Rightarrow> PyStr ''Task not specified'' | Some v \<Rightarrow> v),
                             (case map_of kv ''responsable'' of None \<Rightarrow> PyStr ''Not assigned'' | Some v \<Rightarrow> v))"
    if "i < length (item # items)" and "(item # items) ! i = PyDict kv" for i kv
  proof (cases i)
    case 0
    with that item show ?thesis by simp
  next
    case (Suc j)
    with that nth [of j kv] show ?thesis by simp
  qed
  with eq rows(2) show ?case by simp
qed

text \<open>
  Claim C4, amended. When a structured response has an action item without the key
  \<open>responsable\<close>, the call returns the response unchanged, so the item still has no such
  key; the action-items tab then shows \<open>Not assigned\<close> as the responsible person of that
  item.
\<close>

theorem missing_owner_shown_not_assigned:
  assumes "analyze_meeting loads create g transcription_text models_to_try = (res, entries, g')"
    and "(req, Inr r) \<in> set entries"
    and "first_message_content r = Inr (Some raw_content)"
    and "loads raw_content = Inr (PyDict kvs)"
    and "map_of kvs ''action_items'' = Some (PyList items)"
    and "\<forall>item \<in> set items. \<exists>kv. item = PyDict kv"
    and "i < length items" and "items ! i = PyDict kv" and "map_of kv ''responsable'' = None"
  shows "res = Inr (PyDict kvs)
         \<and> (\<exists>rows. show_action_items (PyDict kvs) = Inr (Rows rows) \<and> length rows = length items
               \<and> snd (snd (rows ! i)) = PyStr ''Not assigned'')"
proof -
  have brk: "\<exists>fr'. fl = Break fr' \<and> analysis_data fr' = PyDict kvs"
    if "attempt loads create transcription_text m fr = ((req, Inr r), fl)" for m fr fl
    using that assms(3,4) by (rule attempt_parsed)
  have "(PyDict kvs \<noteq> PyNone \<longrightarrow> res = Inr (PyDict kvs)) \<and> last entries = (req, Inr r)"
    using brk assms(1,2) by (rule analyze_meeting_breaks_at)
  then have res: "res = Inr (PyDict kvs)" by simp
  from item_rows_of_dicts [OF assms(6), of 1] obtain rows where
    rows: "item_rows 1 items = Inr rows" "length rows = length items"
    and nth: "\<forall>i < length items. \<forall>kv. items ! i = PyDict kv \<longrightarrow>
                 rows ! i = (1 + i,
                             (case map_of kv ''tache'' of None \<Rightarrow> PyStr ''Task not specified'' | Some v \<Rightarrow> v),
                             (case map_of kv ''responsable'' of None \<Rightarrow> PyStr ''Not assigned'' | Some v \<Rightarrow> v))"
    by blast
  from assms(7) have "items \<noteq> []" by auto
  with assms(5) rows(1) have "show_action_items (PyDict kvs) = Inr (Rows rows)"
    by (simp add: show_action_items_def)
  moreover from nth assms(7,8,9) have "snd (snd (rows ! i)) = PyStr ''Not assigned''"
    by simp
  ultimately show ?thesis using res rows(2) by blast
qed

theorem missing_owner_shown_not_assigned_witness:
  "analyze_meeting loads_sample replay [Inr (completion_of missing_owner_json)]
     ''We need Alice to finish the report by Friday.'' None
   = (Inr missing_owner_data,
      [(request_for ''We need Alice to finish the report by Friday.'' ''llama-3.1-8b-instant'',
        Inr (completion_of missing_owner_json))], [])
   \<and> show_action_items missing_owner_data
     = Inr (Rows [(1, PyStr ''Finish report'', PyStr ''Not assigned'')])"
proof -
  let ?t = "''We need Alice to finish the report by Friday.''"
  let ?call = "analyze_meeting loads_sample replay [Inr (completion_of missing_owner_json)] ?t None"
  let ?entry = "(request_for ?t ''llama-3.1-8b-instant'', Inr (completion_of missing_owner_json))"
  let ?kvs = "[(''resume_executif'', PyStr ''Deadline.''),
               (''action_items'', PyList [PyDict [(''tache'', PyStr ''Finish report'')]])]"
  let ?kv = "[(''tache'', PyStr ''Finish report'')]"
  have call: "?call = (fst ?call, [?entry], [])"
    by (simp add: analysis_defs loads_sample_missing_owner)
  have mem: "?entry \<in> set [?entry]" by simp
  have content: "first_message_content (completion_of missing_owner_json) = Inr (Some missing_owner_json)"
    by (simp add: first_message_content_def completion_of_def)
  have parsed: "loads_sample missing_owner_json = Inr (PyDict ?kvs)"
    by (simp add: loads_sample_missing_owner missing_owner_data_def)
  have items: "map_of ?kvs ''action_items'' = Some (PyList [PyDict ?kv])" by simp
  have dicts: "\<forall>item \<in> set [PyDict ?kv]. \<exists>kv. item = PyDict kv" by simp
  have i: "0 < length [PyDict ?kv]" "[PyDict ?kv] ! 0 = PyDict ?kv" "map_of ?kv ''responsable'' = None"
    by simp_all
  from missing_owner_shown_not_assigned [OF call mem content parsed items dicts i]
  have "fst ?call = Inr (PyDict ?kvs)" by blast
  moreover have "show_action_items missing_owner_data
     = Inr (Rows [(1, PyStr ''Finish report'', PyStr ''Not assigned'')])"
    by (simp add: show_action_items_def missing_owner_data_def)
  ultimately show ?thesis using call by (simp add: missing_owner_data_def)
qed

text \<open>
  Claim C4 as stated fails: no default is filled in by \<open>analyze_meeting\<close>, and the item of
  the returned value has no key \<open>responsable\<close>.
\<close>

theorem analyze_keeps_owner_absent:
  "analyze_meeting loads_sample replay [Inr (completion_of missing_owner_json)] ''hello''
     (Some [''llama-3.1-8b-instant''])
   = (Inr (PyDict [(''resume_executif'', PyStr ''Deadline.''),
                   (''action_items'', PyList [PyDict [(''tache'', PyStr ''Finish report'')]])]),
      [(request_for ''hello'' ''llama-3.1-8b-instant'', Inr (completion_of missing_owner_json))], [])
   \<and> map_of [(''tache'', PyStr ''Finish report'')] ''responsable'' = None"
  by (simp add: analysis_defs loads_sample_missing_owner missing_owner_data_def)

section \<open>Properties of the transcription service\<close>

subsection \<open>Trimming\<close>

lemma isspace_space: "isspace (CHR '' '')"
  by (simp add: isspace_def)

lemma rstrip_append_space: "rstrip (s @ '' '') = rstrip s"
  by (simp add: rstrip_def isspace_space)

lemma strip_append_space: "strip (s @ '' '') = strip s"
  by (simp add: strip_def rstrip_append_space)

lemma rstrip_empty_iff: "rstrip s = [] \<longleftrightarrow> (\<forall>c \<in> set s. isspace c)"
  by (simp add: rstrip_def)

lemma rstrip_last: "rstrip s \<noteq> [] \<Longrightarrow> \<not> isspace (last (rstrip s))"
  unfolding rstrip_def using hd_dropWhile [of isspace "rev s"]
  by (simp add: last_rev)

lemma strip_empty_iff: "strip s = [] \<longleftrightarrow> (\<forall>c \<in> set s. isspace c)"
proof
  assume "strip s = []"
  then have all: "\<forall>c \<in> set (rstrip s). isspace c"
    by (simp add: strip_def)
  have "rstrip s = []"
  proof (rule ccontr)
    assume ne: "rstrip s \<noteq> []"
    then have "last (rstrip s) \<in> set (rstrip s)" by simp
    with all rstrip_last [OF ne] show False by blast
  qed
  then show "\<forall>c \<in> set s. isspace c" by (simp add: rstrip_empty_iff)
next
  assume "\<forall>c \<in> set s. isspace c"
  then have "rstrip s = []" by (simp add: rstrip_empty_iff)
  then show "strip s = []" by (simp add: strip_def)
qed

subsection \<open>The loop over the segments\<close>

lemma join_segments_yields:
  "join_segments acc (yields segs StopIteration)
     = (Inr (acc @ concat (map (\<lambda>seg. segment_text seg @ '' '') segs)), StopIteration)"
  by (induction segs arbitrary: acc) simp_all

lemma join_segments_raises:
  "join_segments acc (yields segs (Raises e)) = (Inl e, StopIteration)"
  by (induction segs arbitrary: acc) simp_all

lemma concat_spaces:
  "concat (map (\<lambda>t. t @ '' '') ts) = (if ts = [] then [] else spec_separated ts @ '' '')"
  by (induction ts rule: spec_separated.induct) simp_all

lemma strip_concat_spaces: "strip (concat (map (\<lambda>t. t @ '' '') ts)) = strip (spec_separated ts)"
proof (cases "ts = []")
  case True
  then show ?thesis by simp
next
  case False
  then show ?thesis by (simp only: concat_spaces if_False strip_append_space)
qed

lemma provides_model:
  "provides new self m \<Longrightarrow>
     (case model self of None \<Rightarrow> load_model new self | Some m \<Rightarrow> (Inr m, self))
       = (Inr m, self\<lparr>model := Some m\<rparr>)"
  by (cases "model self") (simp_all add: provides_def load_model_def)

lemma transcribe_audio_file_drained:
  assumes "provides new self m"
    and "transcribe m audio_file_path lang beam_size = Inr (yields segs StopIteration, info)"
  shows "transcribe_audio_file new self audio_file_path lang beam_size
           = (Inr (strip (concat (map (\<lambda>seg. segment_text seg @ '' '') segs)), metadata_of info),
              self\<lparr>model := Some m\<rparr>, Some StopIteration)"
  using assms(2) provides_model [OF assms(1)]
  by (simp add: transcribe_audio_file_def join_segments_yields)

lemma transcribe_audio_file_call_fails:
  assumes "provides new self m"
    and "transcribe m audio_file_path lang beam_size = Inl e"
  shows "transcribe_audio_file new self audio_file_path lang beam_size
           = (Inl (Exception (''Error during transcription: '' @ str_exc e)), self\<lparr>model := Some m\<rparr>, None)"
  using assms(2) provides_model [OF assms(1)]
  by (simp add: transcribe_audio_file_def transcription_error_def)

lemma transcribe_audio_file_decode_fails:
  assumes "provides new self m"
    and "transcribe m audio_file_path lang beam_size = Inr (yields segs (Raises e), info)"
  shows "transcribe_audio_file new self audio_file_path lang beam_size
           = (Inl (Exception (''Error during transcription: '' @ str_exc e)),
              self\<lparr>model := Some m\<rparr>, Some StopIteration)"
  using assms(2) provides_model [OF assms(1)]
  by (simp add: transcribe_audio_file_def transcription_error_def join_segments_raises)

subsection \<open>The transcription text\<close>

text \<open>
  Claim C6. When the model yields a finite sequence of segments, the call leaves the
  generator finished (every segment was taken before the call returns) and its text is
  the segment texts in the order of emission, separated by a single space, with the
  whitespace at both ends removed.
\<close>

theorem transcribe_joins_all_segments:
  assumes "provides new self m"
    and "transcribe m audio_file_path lang beam_size = Inr (yields segs StopIteration, info)"
  shows "transcribe_audio_file new self audio_file_path lang beam_size
           = (Inr (spec_transcript segs, metadata_of info), self\<lparr>model := Some m\<rparr>, Some StopIteration)"
proof -
  have "strip (concat (map (\<lambda>seg. segment_text seg @ '' '') segs)) = spec_transcript segs"
    using strip_concat_spaces [of "map segment_text segs"]
    by (simp add: spec_transcript_def comp_def)
  with transcribe_audio_file_drained [OF assms] show ?thesis by simp
qed

lemmas transcription_defs =
  transcribe_audio_file_def load_model_def transcription_error_def metadata_of_def
  model_yielding_def sample_info_def strip_def rstrip_def isspace_def

theorem transcribe_joins_all_segments_witness:
  "transcribe_audio_file no_weights
     \<lparr>model_size = ''base'',
      model = Some (model_yielding (yields [Segment '' We need Alice'', Segment '' to finish.''] StopIteration))\<rparr>
     ''/tmp/tmpk3x.wav'' None 5
   = (Inr (''We need Alice  to finish.'', metadata_of sample_info),
      \<lparr>model_size = ''base'',
       model = Some (model_yielding (yields [Segment '' We need Alice'', Segment '' to finish.''] StopIteration))\<rparr>,
      Some StopIteration)"
proof -
  let ?segs = "[Segment '' We need Alice'', Segment '' to finish.'']"
  let ?m = "model_yielding (yields ?segs StopIteration)"
  let ?self = "\<lparr>model_size = ''base'', model = Some ?m\<rparr>"
  have p: "provides no_weights ?self ?m"
    by (simp add: provides_def)
  have t: "transcribe ?m ''/tmp/tmpk3x.wav'' None 5 = Inr (yields ?segs StopIteration, sample_info)"
    by (simp add: model_yielding_def)
  have "spec_transcript ?segs = ''We need Alice  to finish.''"
    by (simp add: spec_transcript_def strip_def rstrip_def isspace_def)
  with transcribe_joins_all_segments [OF p t] show ?thesis by simp
qed

text \<open>
  Claim C5, amended. When the model succeeds, the call returns the trimmed concatenation
  of the segment texts, which is empty exactly when no segment text has a character
  other than whitespace (in particular when there is no segment); when the model fails,
  in the call of \<open>transcribe\<close> or while the segments are read, the call raises
  \<open>Error during transcription\<close> with the cause and returns no text.
\<close>

theorem transcribe_text_or_error:
  assumes "provides new self m"
  shows "(transcribe m audio_file_path lang beam_size = Inr (yields segs StopIteration, info) \<longrightarrow>
            (\<exists>transcription_text.
               fst (transcribe_audio_file new self audio_file_path lang beam_size)
                 = Inr (transcription_text, metadata_of info)
               \<and> transcription_text = strip (concat (map (\<lambda>seg. segment_text seg @ '' '') segs))
               \<and> (transcription_text = [] \<longleftrightarrow>
                    (\<forall>seg \<in> set segs. \<forall>c \<in> set (segment_text seg). isspace c))))
       \<and> (transcribe m audio_file_path lang beam_size = Inl e \<longrightarrow>
            fst (transcribe_audio_file new self audio_file_path lang beam_size)
              = Inl (Exception (''Error during transcription: '' @ str_exc e)))
       \<and> (transcribe m audio_file_path lang beam_size = Inr (yields segs (Raises e), info) \<longrightarrow>
            fst (transcribe_audio_file new self audio_file_path lang beam_size)
              = Inl (Exception (''Error during transcription: '' @ str_exc e)))"
proof -
  have "strip (concat (map (\<lambda>seg. segment_text seg @ '' '') segs)) = [] \<longleftrightarrow>
          (\<forall>seg \<in> set segs. \<forall>c \<in> set (segment_text seg). isspace c)"
    by (auto simp add: strip_empty_iff isspace_space)
  then show ?thesis
    using transcribe_audio_file_drained [OF assms, of audio_file_path lang beam_size segs info]
      transcribe_audio_file_call_fails [OF assms, of audio_file_path lang beam_size e]
      transcribe_audio_file_decode_fails [OF assms, of audio_file_path lang beam_size segs e info]
    by simp
qed

theorem transcribe_text_or_error_witness:
  "fst (transcribe_audio_file no_weights
          \<lparr>model_size = ''base'', model = Some (model_yielding (yields [Segment '' Hello.''] StopIteration))\<rparr>
          ''/tmp/tmpk3x.wav'' None 5)
     = Inr (''Hello.'', metadata_of sample_info)
   \<and> fst (transcribe_audio_file no_weights
          \<lparr>model_size = ''base'',
           model = Some (model_yielding (yields [Segment '' Hello.''] (Raises (Exception ''Invalid data found''))))\<rparr>
          ''/tmp/tmpk3x.wav'' None 5)
     = Inl (Exception ''Error during transcription: Invalid data found'')
   \<and> fst (transcribe_audio_file no_weights
          \<lparr>model_size = ''base'', model = Some (model_failing (Exception ''No such file''))\<rparr>
          ''/tmp/tmpk3x.wav'' None 5)
     = Inl (Exception ''Error during transcription: No such file'')"
proof -
  let ?m1 = "model_yielding (yields [Segment '' Hello.''] StopIteration)"
  let ?m2 = "model_yielding (yields [Segment '' Hello.''] (Raises (Exception ''Invalid data found'')))"
  let ?m3 = "model_failing (Exception ''No such file'')"
  have p1: "provides no_weights \<lparr>model_size = ''base'', model = Some ?m1\<rparr> ?m1"
    and p2: "provides no_weights \<lparr>model_size = ''base'', model = Some ?m2\<rparr> ?m2"
    and p3: "provides no_weights \<lparr>model_size = ''base'', model = Some ?m3\<rparr> ?m3"
    by (simp_all add: provides_def)
  have t1: "transcribe ?m1 ''/tmp/tmpk3x.wav'' None 5 = Inr (yields [Segment '' Hello.''] StopIteration, sample_info)"
    and t2: "transcribe ?m2 ''/tmp/tmpk3x.wav'' None 5
             = Inr (yields [Segment '' Hello.''] (Raises (Exception ''Invalid data found'')), sample_info)"
    and t3: "transcribe ?m3 ''/tmp/tmpk3x.wav'' None 5 = Inl (Exception ''No such file'')"
    by (simp_all add: model_yielding_def model_failing_def)
  have s: "strip (concat (map (\<lambda>seg. segment_text seg @ '' '') [Segment '' Hello.''])) = ''Hello.''"
    by (simp add: strip_def rstrip_def isspace_def)
  from transcribe_text_or_error [OF p1, where audio_file_path = "''/tmp/tmpk3x.wav''" and lang = None
      and beam_size = 5 and segs = "[Segment '' Hello.'']" and info = sample_info] t1 s
  have "fst (transcribe_audio_file no_weights \<lparr>model_size = ''base'', model = Some ?m1\<rparr> ''/tmp/tmpk3x.wav'' None 5)
          = Inr (''Hello.'', metadata_of sample_info)"
    by auto
  moreover
  from transcribe_text_or_error [OF p2, where audio_file_path = "''/tmp/tmpk3x.wav''" and lang = None
      and beam_size = 5 and segs = "[Segment '' Hello.'']" and info = sample_info
      and e = "Exception ''Invalid data found''"] t2
  have "fst (transcribe_audio_file no_weights \<lparr>model_size = ''base'', model = Some ?m2\<rparr> ''/tmp/tmpk3x.wav'' None 5)
          = Inl (Exception ''Error during transcription: Invalid data found'')"
    by simp
  moreover
  from transcribe_text_or_error [OF p3, where audio_file_path = "''/tmp/tmpk3x.wav''" and lang = None
      and beam_size = 5 and e = "Exception ''No such file''"] t3
  have "fst (transcribe_audio_file no_weights \<lparr>model_size = ''base'', model = Some ?m3\<rparr> ''/tmp/tmpk3x.wav'' None 5)
          = Inl (Exception ''Error during transcription: No such file'')"
    by simp
  ultimately show ?thesis by simp
qed

text \<open>
  Claim C5 as stated fails: a model that succeeds and yields no segment makes the call
  return the empty text, with the metadata and without an exception.
\<close>

theorem transcribe_returns_empty_text:
  "transcribe_audio_file no_weights
     \<lparr>model_size = ''base'', model = Some (model_yielding StopIteration)\<rparr> ''/tmp/tmpk3x.wav'' None 5
   = (Inr ([], metadata_of sample_info),
      \<lparr>model_size = ''base'', model = Some (model_yielding StopIteration)\<rparr>, Some StopIteration)"
  by (simp add: transcribe_audio_file_def model_yielding_def strip_def rstrip_def)

subsection \<open>Loading the model\<close>

text \<open>
  Claim C7. With a model already loaded, \<open>load_model\<close> returns that model and leaves the
  service as it is; when no model is loaded and the constructor raises, \<open>load_model\<close>
  raises \<open>Error loading Whisper model\<close> with the text of the cause and the service is
  unchanged, still without a model.
\<close>

theorem load_model_cached_or_unchanged:
  "(model self = Some m \<longrightarrow> load_model new self = (Inr m, self))
   \<and> (model self = None \<and> new (model_size self) ''cpu'' ''int8'' = Inl e \<longrightarrow>
        load_model new self = (Inl (Exception (''Error loading Whisper model: '' @ str_exc e)), self)
        \<and> model (snd (load_model new self)) = None)"
  by (simp add: load_model_def)

theorem load_model_cached_or_unchanged_witness:
  "load_model no_weights \<lparr>model_size = ''base'', model = Some (model_yielding StopIteration)\<rparr>
     = (Inr (model_yielding StopIteration), \<lparr>model_size = ''base'', model = Some (model_yielding StopIteration)\<rparr>)
   \<and> load_model no_weights (init_service ''small'')
     = (Inl (Exception ''Error loading Whisper model: model not found''), init_service ''small'')"
proof -
  let ?loaded = "\<lparr>model_size = ''base'', model = Some (model_yielding StopIteration)\<rparr>"
  have "model ?loaded = Some (model_yielding StopIteration)" by simp
  with load_model_cached_or_unchanged [where self = ?loaded and m = "model_yielding StopIteration"
      and new = no_weights]
  have "load_model no_weights ?loaded = (Inr (model_yielding StopIteration), ?loaded)"
    by blast
  moreover
  have "model (init_service ''small'') = None
        \<and> no_weights (model_size (init_service ''small'')) ''cpu'' ''int8'' = Inl (Exception ''model not found'')"
    by (simp add: init_service_def no_weights_def)
  with load_model_cached_or_unchanged [where self = "init_service ''small''" and new = no_weights
      and e = "Exception ''model not found''"]
  have "load_model no_weights (init_service ''small'')
          = (Inl (Exception ''Error loading Whisper model: model not found''), init_service ''small'')"
    by simp
  ultimately show ?thesis by simp
qed

subsection \<open>The temporary file\<close>

lemma cleanup_finally_removes:
  assumes "unlink_error env p = None" and "p \<noteq> []"
  shows "\<not> exists_path (cleanup_finally env (Some p) w) p"
  using assms by (simp add: cleanup_finally_def to_delete_def unlink_def exists_path_def)

lemma try_body_path_recorded:
  assumes "named_temporary_file env (file_extension env uploaded) = Inr p"
    and "write_error env p = None"
  shows "fst (snd (try_body env new self uploaded lang beam_size w)) = Some p"
    and "close_error env p = None \<Longrightarrow>
           fst (try_body env new self uploaded lang beam_size w)
             = fst (transcribe_audio_file new self p lang beam_size)"
  using assms by (simp_all add: try_body_def Let_def split: option.splits prod.splits)

text \<open>
  Claim C8, amended. Once the upload has been written to the temporary file, so that its
  path is recorded, and provided \<open>os.unlink\<close> does not raise on that path, the file does
  not exist after the call, whether \<open>close\<close> or the transcription fail or the
  transcription succeeds; the call returns or raises what the transcription does.
\<close>

theorem temp_file_removed_when_unlink_succeeds:
  assumes "named_temporary_file env (file_extension env uploaded) = Inr p"
    and "write_error env p = None"
    and "unlink_error env p = None" and "p \<noteq> []"
  shows "\<not> exists_path (snd (snd (transcribe_uploaded_file env new self uploaded lang beam_size w))) p
         \<and> (close_error env p = None \<longrightarrow>
              fst (transcribe_uploaded_file env new self uploaded lang beam_size w)
                = fst (transcribe_audio_file new self p lang beam_size))"
proof -
  obtain res path self' w1 where
    body: "try_body env new self uploaded lang beam_size w = (res, path, self', w1)"
    by (cases "try_body env new self uploaded lang beam_size w")
  with try_body_path_recorded [OF assms(1,2), of new self lang beam_size w]
  have path: "path = Some p"
    and res: "close_error env p = None \<Longrightarrow> res = fst (transcribe_audio_file new self p lang beam_size)"
    by simp_all
  from body path have "snd (snd (transcribe_uploaded_file env new self uploaded lang beam_size w))
      = cleanup_finally env (Some p)
          (case res of Inl e \<Rightarrow> cleanup_on_error env (Some p) w1 | Inr r \<Rightarrow> w1)"
    and "fst (transcribe_uploaded_file env new self uploaded lang beam_size w) = res"
    by (simp_all add: transcribe_uploaded_file_def Let_def)
  with cleanup_finally_removes [OF assms(3,4)] res show ?thesis by simp
qed

lemmas upload_defs =
  transcribe_uploaded_file_def try_body_def file_extension_def cleanup_on_error_def
  cleanup_finally_def to_delete_def unlink_def exists_path_def sample_env_def sample_upload_def
  empty_world_def Let_def

theorem temp_file_removed_when_unlink_succeeds_witness:
  "\<not> exists_path (snd (snd (transcribe_uploaded_file (sample_env None) no_weights
        \<lparr>model_size = ''base'',
         model = Some (model_yielding (yields [Segment '' Hello.''] (Raises (Exception ''Invalid data found''))))\<rparr>
        sample_upload None 5 empty_world))) ''/tmp/tmpk3x.wav''
   \<and> fst (transcribe_uploaded_file (sample_env None) no_weights
        \<lparr>model_size = ''base'',
         model = Some (model_yielding (yields [Segment '' Hello.''] (Raises (Exception ''Invalid data found''))))\<rparr>
        sample_upload None 5 empty_world)
     = Inl (Exception ''Error during transcription: Invalid data found'')
   \<and> \<not> exists_path (snd (snd (transcribe_uploaded_file (sample_env None) no_weights
        \<lparr>model_size = ''base'', model = Some (model_yielding (yields [Segment '' Hello.''] StopIteration))\<rparr>
        sample_upload None 5 empty_world))) ''/tmp/tmpk3x.wav''
   \<and> fst (transcribe_uploaded_file (sample_env None) no_weights
        \<lparr>model_size = ''base'', model = Some (model_yielding (yields [Segment '' Hello.''] StopIteration))\<rparr>
        sample_upload None 5 empty_world)
     = Inr (''Hello.'', metadata_of sample_info)"
proof -
  let ?bad = "\<lparr>model_size = ''base'',
      model = Some (model_yielding (yields [Segment '' Hello.''] (Raises (Exception ''Invalid data found''))))\<rparr>"
  let ?good = "\<lparr>model_size = ''base'', model = Some (model_yielding (yields [Segment '' Hello.''] StopIteration))\<rparr>"
  have tmp: "named_temporary_file (sample_env None) (file_extension (sample_env None) sample_upload)
               = Inr ''/tmp/tmpk3x.wav''"
    and ok: "write_error (sample_env None) ''/tmp/tmpk3x.wav'' = None"
            "unlink_error (sample_env None) ''/tmp/tmpk3x.wav'' = None"
            "''/tmp/tmpk3x.wav'' \<noteq> []"
    and closed: "close_error (sample_env None) ''/tmp/tmpk3x.wav'' = None"
    by (simp_all add: sample_env_def sample_upload_def file_extension_def)
  note absent = temp_file_removed_when_unlink_succeeds [OF tmp ok]
  have bad: "fst (transcribe_audio_file no_weights ?bad ''/tmp/tmpk3x.wav'' None 5)
               = Inl (Exception ''Error during transcription: Invalid data found'')"
    and good: "fst (transcribe_audio_file no_weights ?good ''/tmp/tmpk3x.wav'' None 5)
               = Inr (''Hello.'', metadata_of sample_info)"
    by (simp_all add: transcribe_audio_file_def transcription_error_def model_yielding_def
        strip_def rstrip_def isspace_def)
  from absent [of no_weights ?bad None 5 empty_world] absent [of no_weights ?good None 5 empty_world]
    closed bad good
  show ?thesis by simp
qed

text \<open>
  Claim C8 as stated, for every exit path, fails when \<open>os.unlink\<close> raises: the clean-up
  prints a warning, the call returns the transcription, and the file is still on disk.
\<close>

theorem temp_file_left_when_unlink_fails:
  "fst (transcribe_uploaded_file (sample_env (Some (Exception ''[Errno 13] Permission denied'')))
          no_weights
          \<lparr>model_size = ''base'', model = Some (model_yielding (yields [Segment '' Hello.''] StopIteration))\<rparr>
          sample_upload None 5 empty_world)
     = Inr (''Hello.'', metadata_of sample_info)
   \<and> exists_path
        (snd (snd (transcribe_uploaded_file (sample_env (Some (Exception ''[Errno 13] Permission denied'')))
          no_weights
          \<lparr>model_size = ''base'', model = Some (model_yielding (yields [Segment '' Hello.''] StopIteration))\<rparr>
          sample_upload None 5 empty_world)))
        ''/tmp/tmpk3x.wav''
   \<and> stdout
        (snd (snd (transcribe_uploaded_file (sample_env (Some (Exception ''[Errno 13] Permission denied'')))
          no_weights
          \<lparr>model_size = ''base'', model = Some (model_yielding (yields [Segment '' Hello.''] StopIteration))\<rparr>
          sample_upload None 5 empty_world)))
     = [''Warning: Unable to delete temporary file: [Errno 13] Permission denied'']"
  by (simp add: upload_defs transcription_defs)

text \<open>
  A failure of \<open>write\<close> comes before \<open>temp_file_path\<close> is assigned: neither clean-up
  finds a path, and the file that \<open>NamedTemporaryFile\<close> created stays.
\<close>

lemma temp_file_left_when_write_fails:
  "transcribe_uploaded_file
     ((sample_env None)\<lparr>write_error := (\<lambda>p. Some (Exception ''[Errno 28] No space left on device''))\<rparr>)
     no_weights (init_service ''base'') sample_upload None 5 empty_world
   = (Inl (Exception ''[Errno 28] No space left on device''), init_service ''base'',
      \<lparr>disk = [''/tmp/tmpk3x.wav'' \<mapsto> []], stdout = []\<rparr>)"
  by (simp add: upload_defs)

end
